theory Spec2Isabelle
  imports Complex_Main
begin

section \<open>Exceptions and HTTP responses\<close>

text \<open>
  The Python exceptions that the data source raises or lets through. \<open>IOError\<close> is the one
  built by \<open>get_order_book_data\<close>: its message is formatted from the trading pair, the
  endpoint, the HTTP status and the decoded response body, kept here as four fields.
  \<open>ClientError\<close> stands for whatever a failed network call raises (aiohttp, websockets),
  among them aiohttp's ContentTypeError, raised by \<open>response.json()\<close> on a body that is
  not JSON.
\<close>

datatype 'j error =
    CancelledError
  | ClientError string
  | KeyError string
  | ValueError
  | UnboundLocalError string
  | IOError string string nat 'j

text \<open>
  A response as the code reads it: \<open>response.status\<close> and what \<open>await response.json()\<close>
  gives (for the order-book request, the outcome of that await, which may be an exception).
\<close>

record 'b response =
  status :: nat
  json :: 'b

section \<open>Constants (ndax\_constants.py)\<close>

definition MARKETS_URL :: string where
  "MARKETS_URL = ''GetInstruments''"

definition ORDER_BOOK_URL :: string where
  "ORDER_BOOK_URL = ''GetL2Snapshot''"

definition WS_ORDER_BOOK_CHANNEL :: string where
  "WS_ORDER_BOOK_CHANNEL = ''SubscribeLevel2''"

definition WS_ORDER_BOOK_L2_UPDATE_EVENT :: string where
  "WS_ORDER_BOOK_L2_UPDATE_EVENT = ''Level2UpdateEvent''"

section \<open>Instrument directory: \<open>init_trading_pair_ids\<close>\<close>

text \<open>One element of the GetInstruments document, with the three keys the code reads.\<close>

record instrument =
  Product1Symbol :: string
  Product2Symbol :: string
  InstrumentId :: int

type_synonym trading_pair_id_map = "string \<rightharpoonup> int"

text \<open>
  The loop \<open>for instrument in resp_json: results.update({f"{p1}-{p2}": int(id)})\<close>:
  a later instrument with the same pair name overwrites an earlier one.
\<close>

fun update_results :: "trading_pair_id_map \<Rightarrow> instrument list \<Rightarrow> trading_pair_id_map" where
  "update_results results [] = results"
| "update_results results (i # rest) =
     update_results (results(Product1Symbol i @ ''-'' @ Product2Symbol i \<mapsto> InstrumentId i)) rest"

text \<open>
  \<open>init_trading_pair_ids\<close> takes the class-level cache and the outcome of the one GET
  (\<open>Inl e\<close>: the call raised \<open>e\<close>), and returns what the coroutine returns or raises together
  with the cache afterwards. The cache is cleared in place before the request; the name is
  rebound to \<open>results\<close> only when the \<open>async with\<close> block ends normally, and \<open>results\<close>
  stays empty unless the status is 200.
\<close>

definition init_trading_pair_ids ::
  "trading_pair_id_map \<Rightarrow> 'j error + instrument list response
    \<Rightarrow> ('j error + unit) \<times> trading_pair_id_map" where
  "init_trading_pair_ids trading_pair_id_map get =
     (let cleared = (Map.empty :: trading_pair_id_map);
          results = (Map.empty :: trading_pair_id_map)
      in case get of
           Inl e \<Rightarrow> (Inl e, cleared)
         | Inr response \<Rightarrow>
             (if status response = 200
              then (Inr (), update_results results (json response))
              else (Inr (), results)))"

text \<open>The subscript \<open>cls._trading_pair_id_map[trading_pair]\<close>: a dictionary lookup, KeyError on a miss.\<close>

definition trading_pair_id :: "trading_pair_id_map \<Rightarrow> string \<Rightarrow> 'j error + int" where
  "trading_pair_id m trading_pair =
     (case m trading_pair of None \<Rightarrow> Inl (KeyError trading_pair) | Some i \<Rightarrow> Inr i)"

section \<open>Order-book entries and messages\<close>

text \<open>
  Modelled from the spec: the entry type \<open>NdaxOrderBookEntry\<close> is declared in
  ndax\_order\_book\_message.py, which is not among the sources. Its fields are those of the
  spec's PriceLevelEntry (side flag, price, quantity, last update timestamp); the
  timestamp keeps the name under which the data source reads it, \<open>actionDateTime\<close>.
\<close>

datatype side = Bid | Ask

record NdaxOrderBookEntry =
  side :: side
  price :: rat
  quantity :: rat
  actionDateTime :: int

datatype OrderBookMessageType = SNAPSHOT | DIFF

text \<open>
  Modelled from the spec: the message constructors
  \<open>NdaxOrderBook.snapshot_message_from_exchange\<close> and
  \<open>NdaxOrderBook.diff_message_from_exchange\<close> live in ndax\_order\_book.py, which is not
  among the sources. Following the spec's OrderBookMessage, a message is an envelope around
  the content it was given, tagged Snapshot or Diff, whose \<open>updateId\<close> is the
  \<open>timestamp\<close> argument and whose metadata is the trading pair and instrument id.
\<close>

record 'c OrderBookMessage =
  msg_type :: OrderBookMessageType
  content :: 'c
  update_id :: int
  metadata :: "(string \<times> int option) option"

definition snapshot_message_from_exchange ::
  "'c \<Rightarrow> int \<Rightarrow> (string \<times> int option) option \<Rightarrow> 'c OrderBookMessage" where
  "snapshot_message_from_exchange msg timestamp md =
     \<lparr>msg_type = SNAPSHOT, content = msg, update_id = timestamp, metadata = md\<rparr>"

definition diff_message_from_exchange ::
  "'c \<Rightarrow> int \<Rightarrow> (string \<times> int option) option \<Rightarrow> 'c OrderBookMessage" where
  "diff_message_from_exchange msg timestamp md =
     \<lparr>msg_type = DIFF, content = msg, update_id = timestamp, metadata = md\<rparr>"

text \<open>The dictionary \<open>{"data": entries}\<close> that both paths build.\<close>

record data_dict =
  data :: "NdaxOrderBookEntry list"

section \<open>Snapshot fetch: \<open>get_order_book_data\<close>\<close>

text \<open>
  \<open>get_order_book_data\<close> first refreshes the directory, then looks the pair up, then issues
  the GetL2Snapshot request with the instrument id it found (\<open>get_book\<close> gives the outcome
  of that request for an id). The \<open>json\<close> of the order-book response is the outcome of
  \<open>await response.json()\<close>: \<open>Inr\<close> the decoded document, \<open>Inl e\<close> when decoding raises
  \<open>e\<close>, as aiohttp does on a body that is not JSON. On a status other than 200 the code
  awaits \<open>response.json()\<close> inside the message of the IOError, hence before the IOError
  exists: if decoding raises, that exception leaves the function and no IOError is built.
  The parameter \<open>entries_of\<close> stands for the comprehension
  \<open>[NdaxOrderBookEntry(*entry) for entry in response]\<close> over the decoded body, whose
  constructor is declared outside the sources. The result carries the cache afterwards.
\<close>

definition get_order_book_data ::
  "('j \<Rightarrow> NdaxOrderBookEntry list) \<Rightarrow> trading_pair_id_map
    \<Rightarrow> 'j error + instrument list response
    \<Rightarrow> (int \<Rightarrow> 'j error + ('j error + 'j) response)
    \<Rightarrow> string \<Rightarrow> ('j error + data_dict) \<times> trading_pair_id_map" where
  "get_order_book_data entries_of trading_pair_id_map get_instruments get_book trading_pair =
     (case init_trading_pair_ids trading_pair_id_map get_instruments of
        (Inl e, m) \<Rightarrow> (Inl e, m)
      | (Inr _, m) \<Rightarrow>
          (case trading_pair_id m trading_pair of
             Inl e \<Rightarrow> (Inl e, m)
           | Inr instrument_id \<Rightarrow>
               (case get_book instrument_id of
                  Inl e \<Rightarrow> (Inl e, m)
                | Inr response \<Rightarrow>
                    (if status response \<noteq> 200
                     then
                       (case json response of
                          Inl e \<Rightarrow> (Inl e, m)
                        | Inr body \<Rightarrow>
                            (Inl (IOError trading_pair ORDER_BOOK_URL (status response) body),
                             m))
                     else
                       (case json response of
                          Inl e \<Rightarrow> (Inl e, m)
                        | Inr body \<Rightarrow> (Inr \<lparr>data = entries_of body\<rparr>, m))))))"

section \<open>Diff listener: one inbound frame\<close>

text \<open>
  A frame after \<open>ujson.loads(raw_msg)\<close>: the event name under key \<open>n\<close> and the nested
  payload under key \<open>o\<close>.
\<close>

record 'j ws_msg =
  msg_n :: string
  msg_o :: 'j

text \<open>Python's \<open>max\<close> of a list: ValueError on the empty list.\<close>

fun max_py :: "int list \<Rightarrow> 'j error + int" where
  "max_py [] = Inl ValueError"
| "max_py (x # xs) = Inr (fold max xs x)"

text \<open>
  The body of the \<open>async for raw_msg in ws_adapter.iter_messages()\<close> loop of
  \<open>listen_for_order_book_diffs\<close>: \<open>Inr None\<close> is \<open>continue\<close> with nothing put on the
  output queue, \<open>Inr (Some m)\<close> is \<open>output.put_nowait(m)\<close>, \<open>Inl e\<close> is an exception
  leaving the loop body. \<open>entries_of\<close> decodes the nested payload into entries.
\<close>

definition handle_raw_msg ::
  "('j \<Rightarrow> NdaxOrderBookEntry list) \<Rightarrow> 'j ws_msg
    \<Rightarrow> 'j error + data_dict OrderBookMessage option" where
  "handle_raw_msg entries_of msg =
     (let msg_event = msg_n msg in
      if msg_event \<notin> set [WS_ORDER_BOOK_CHANNEL, WS_ORDER_BOOK_L2_UPDATE_EVENT]
      then Inr None
      else
        (let msg_data = entries_of (msg_o msg) in
         case max_py (map actionDateTime msg_data) of
           Inl e \<Rightarrow> Inl e
         | Inr msg_timestamp \<Rightarrow>
             (let content = \<lparr>data = msg_data\<rparr> in
              if msg_event = WS_ORDER_BOOK_CHANNEL
              then Inr (Some (snapshot_message_from_exchange content msg_timestamp None))
              else if msg_event = WS_ORDER_BOOK_L2_UPDATE_EVENT
              then Inr (Some (diff_message_from_exchange content msg_timestamp None))
              else Inr None)))"

section \<open>What the loops do: observable actions\<close>

text \<open>
  The loops run forever, so they are modelled on a finite prefix of what their environment
  does: each awaited call takes its outcome from an environment record, and a loop returns
  the actions it performed together with the exception that ended it, or \<open>None\<close> when it
  is still running after the prefix. An awaited \<open>asyncio.sleep\<close> either returns (\<open>None\<close>)
  or raises (\<open>Some e\<close>, in practice a cancellation).
\<close>

datatype 'c action =
    GetNewOrderBook string
  | Put "'c OrderBookMessage"
  | LogNetwork
  | LogError
  | Sleep nat
  | SleepUntilNextHour
  | Connect
  | SendRequest string string
  | Close

fun is_cancelled :: "'j error \<Rightarrow> bool" where
  "is_cancelled CancelledError = True"
| "is_cancelled _ = False"

section \<open>Snapshot loop: \<open>listen_for_order_book_snapshots\<close>\<close>

text \<open>
  What happens while one trading pair is processed: \<open>attempt\<close> is the outcome of the inner
  \<open>try\<close> body (\<open>Inr\<close>: the book returned by \<open>get_new_order_book\<close>, the class-level id map
  at that moment and the wall-clock milliseconds; \<open>Inl e\<close>: the body raised \<open>e\<close> while
  fetching, building or putting the message), and \<open>sleep5\<close> is the outcome of the
  handler's \<open>asyncio.sleep(5.0)\<close>.
\<close>

record ('j, 'c) pair_env =
  attempt :: "'j error + 'c \<times> trading_pair_id_map \<times> int"
  sleep5 :: "'j error option"

text \<open>
  The \<open>for trading_pair in self._trading_pairs\<close> loop with its inner \<open>try\<close>: a cancellation
  is re-raised at once; any other exception is logged and followed by a 5 second sleep,
  after which the \<open>for\<close> loop goes on; an exception raised by that sleep leaves the loop.
\<close>

fun snapshot_pairs ::
  "(nat \<Rightarrow> ('j, 'c) pair_env) \<Rightarrow> nat \<Rightarrow> string list \<Rightarrow> 'c action list \<times> ('j error + unit)" where
  "snapshot_pairs env i [] = ([], Inr ())"
| "snapshot_pairs env i (trading_pair # rest) =
     (case attempt (env i) of
        Inr (snapshot, m, snapshot_timestamp) \<Rightarrow>
          (case snapshot_pairs env (Suc i) rest of
             (acts, r) \<Rightarrow>
               (GetNewOrderBook trading_pair
                # Put (snapshot_message_from_exchange snapshot snapshot_timestamp
                         (Some (trading_pair, m trading_pair)))
                # acts, r))
      | Inl e \<Rightarrow>
          (if is_cancelled e then ([GetNewOrderBook trading_pair], Inl e)
           else
             (case sleep5 (env i) of
                Some e' \<Rightarrow> ([GetNewOrderBook trading_pair, LogNetwork, Sleep 5], Inl e')
              | None \<Rightarrow>
                  (case snapshot_pairs env (Suc i) rest of
                     (acts, r) \<Rightarrow>
                       (GetNewOrderBook trading_pair # LogNetwork # Sleep 5 # acts, r)))))"

text \<open>
  One pass of the outer \<open>while True\<close>: the pairs, then the sleep until the next full hour;
  the outer handler re-raises a cancellation and answers any other exception with an
  error log and a 5 second sleep.
\<close>

record ('j, 'c) cycle_env =
  pair_envs :: "nat \<Rightarrow> ('j, 'c) pair_env"
  hour_sleep :: "'j error option"
  retry_sleep :: "'j error option"

definition snapshots_except ::
  "('j, 'c) cycle_env \<Rightarrow> 'c action list \<Rightarrow> 'j error \<Rightarrow> 'c action list \<times> ('j error + unit)" where
  "snapshots_except cenv acts e =
     (if is_cancelled e then (acts, Inl e)
      else
        (case retry_sleep cenv of
           None \<Rightarrow> (acts @ [LogError, Sleep 5], Inr ())
         | Some e' \<Rightarrow> (acts @ [LogError, Sleep 5], Inl e')))"

definition snapshots_cycle ::
  "string list \<Rightarrow> ('j, 'c) cycle_env \<Rightarrow> 'c action list \<times> ('j error + unit)" where
  "snapshots_cycle trading_pairs cenv =
     (case snapshot_pairs (pair_envs cenv) 0 trading_pairs of
        (acts, Inl e) \<Rightarrow> snapshots_except cenv acts e
      | (acts, Inr _) \<Rightarrow>
          (case hour_sleep cenv of
             None \<Rightarrow> (acts @ [SleepUntilNextHour], Inr ())
           | Some e \<Rightarrow> snapshots_except cenv (acts @ [SleepUntilNextHour]) e))"

fun listen_for_order_book_snapshots ::
  "string list \<Rightarrow> ('j, 'c) cycle_env list \<Rightarrow> 'c action list \<times> 'j error option" where
  "listen_for_order_book_snapshots trading_pairs [] = ([], None)"
| "listen_for_order_book_snapshots trading_pairs (cenv # rest) =
     (case snapshots_cycle trading_pairs cenv of
        (acts, Inl e) \<Rightarrow> (acts, Some e)
      | (acts, Inr _) \<Rightarrow>
          (case listen_for_order_book_snapshots trading_pairs rest of
             (acts', r) \<Rightarrow> (acts @ acts', r)))"

text \<open>
  The trace the specification describes for one pair: the fetch, then either the emitted
  snapshot message or the network log and the 5 second wait.
\<close>

definition pair_trace :: "string \<Rightarrow> ('j, 'c) pair_env \<Rightarrow> 'c action list" where
  "pair_trace trading_pair penv =
     (case attempt penv of
        Inr (snapshot, m, snapshot_timestamp) \<Rightarrow>
          [GetNewOrderBook trading_pair,
           Put (snapshot_message_from_exchange snapshot snapshot_timestamp
                  (Some (trading_pair, m trading_pair)))]
      | Inl e \<Rightarrow> [GetNewOrderBook trading_pair, LogNetwork, Sleep 5])"

text \<open>The trace of a whole pass over the tracked pairs, and the pairs a trace fetched.\<close>

fun pairs_trace :: "(nat \<Rightarrow> ('j, 'c) pair_env) \<Rightarrow> nat \<Rightarrow> string list \<Rightarrow> 'c action list" where
  "pairs_trace env i [] = []"
| "pairs_trace env i (trading_pair # rest) =
     pair_trace trading_pair (env i) @ pairs_trace env (Suc i) rest"

fun fetched :: "'c action list \<Rightarrow> string list" where
  "fetched [] = []"
| "fetched (GetNewOrderBook p # acts) = p # fetched acts"
| "fetched (_ # acts) = fetched acts"

section \<open>Diff loop: \<open>listen_for_order_book_diffs\<close>\<close>

text \<open>
  What happens during one pass of the \<open>while True\<close>: whether \<open>websockets.connect\<close> raises,
  whether a subscription request for a pair raises, the frames \<open>iter_messages\<close> yields and
  how it ends after them (\<open>None\<close>: the iterator is exhausted), and the outcome of the
  handler's \<open>asyncio.sleep(30.0)\<close>.
\<close>

record 'j conn_env =
  connect :: "'j error option"
  send_request :: "string \<Rightarrow> 'j error option"
  messages :: "'j ws_msg list"
  messages_end :: "'j error option"
  sleep30 :: "'j error option"

fun subscribe ::
  "(string \<Rightarrow> 'j error option) \<Rightarrow> string list \<Rightarrow> 'c action list \<times> ('j error + unit)" where
  "subscribe send [] = ([], Inr ())"
| "subscribe send (trading_pair # rest) =
     (case send trading_pair of
        Some e \<Rightarrow> ([SendRequest WS_ORDER_BOOK_CHANNEL trading_pair], Inl e)
      | None \<Rightarrow>
          (case subscribe send rest of
             (acts, r) \<Rightarrow> (SendRequest WS_ORDER_BOOK_CHANNEL trading_pair # acts, r)))"

fun iter_messages ::
  "('j \<Rightarrow> NdaxOrderBookEntry list) \<Rightarrow> 'j error option \<Rightarrow> 'j ws_msg list
    \<Rightarrow> data_dict action list \<times> ('j error + unit)" where
  "iter_messages entries_of ending [] =
     ([], case ending of None \<Rightarrow> Inr () | Some e \<Rightarrow> Inl e)"
| "iter_messages entries_of ending (raw_msg # rest) =
     (case handle_raw_msg entries_of raw_msg of
        Inl e \<Rightarrow> ([], Inl e)
      | Inr None \<Rightarrow> iter_messages entries_of ending rest
      | Inr (Some m) \<Rightarrow>
          (case iter_messages entries_of ending rest of
             (acts, r) \<Rightarrow> (Put m # acts, r)))"

text \<open>
  The \<open>try\<close> body. The flag says whether the local variable \<open>ws\<close> is bound: it is bound by
  \<open>async with websockets.connect(...) as ws\<close> once the connection is made, and keeps its
  value from an earlier pass otherwise.
\<close>

definition diffs_try ::
  "('j \<Rightarrow> NdaxOrderBookEntry list) \<Rightarrow> string list \<Rightarrow> bool \<Rightarrow> 'j conn_env
    \<Rightarrow> data_dict action list \<times> ('j error + unit) \<times> bool" where
  "diffs_try entries_of trading_pairs ws_bound env =
     (case connect env of
        Some e \<Rightarrow> ([Connect], Inl e, ws_bound)
      | None \<Rightarrow>
          (case subscribe (send_request env) trading_pairs of
             (acts, Inl e) \<Rightarrow> (Connect # acts, Inl e, True)
           | (acts, Inr _) \<Rightarrow>
               (case iter_messages entries_of (messages_end env) (messages env) of
                  (acts', r) \<Rightarrow> (Connect # acts @ acts', r, True))))"

text \<open>
  One pass: the \<open>try\<close> body, the handlers (a cancellation is re-raised, any other
  exception is logged and followed by a 30 second sleep), and the \<open>finally\<close> clause
  \<open>await ws.close()\<close>, which raises UnboundLocalError when \<open>ws\<close> was never bound; an
  exception raised in \<open>finally\<close> replaces the one in flight.
\<close>

definition diffs_iteration ::
  "('j \<Rightarrow> NdaxOrderBookEntry list) \<Rightarrow> string list \<Rightarrow> bool \<Rightarrow> 'j conn_env
    \<Rightarrow> data_dict action list \<times> ('j error + unit) \<times> bool" where
  "diffs_iteration entries_of trading_pairs ws_bound env =
     (case diffs_try entries_of trading_pairs ws_bound env of
        (acts, r, ws_bound') \<Rightarrow>
          (case (case r of
                   Inr u \<Rightarrow> (acts, Inr u)
                 | Inl e \<Rightarrow>
                     (if is_cancelled e then (acts, Inl e)
                      else
                        (case sleep30 env of
                           None \<Rightarrow> (acts @ [LogNetwork, Sleep 30], Inr ())
                         | Some e' \<Rightarrow> (acts @ [LogNetwork, Sleep 30], Inl e')))) of
             (acts2, r2) \<Rightarrow>
               (if ws_bound' then (acts2 @ [Close], r2, ws_bound')
                else (acts2, Inl (UnboundLocalError ''ws''), ws_bound'))))"

fun diffs_loop ::
  "('j \<Rightarrow> NdaxOrderBookEntry list) \<Rightarrow> string list \<Rightarrow> bool \<Rightarrow> 'j conn_env list
    \<Rightarrow> data_dict action list \<times> 'j error option" where
  "diffs_loop entries_of trading_pairs ws_bound [] = ([], None)"
| "diffs_loop entries_of trading_pairs ws_bound (env # rest) =
     (case diffs_iteration entries_of trading_pairs ws_bound env of
        (acts, Inl e, _) \<Rightarrow> (acts, Some e)
      | (acts, Inr _, ws_bound') \<Rightarrow>
          (case diffs_loop entries_of trading_pairs ws_bound' rest of
             (acts', r) \<Rightarrow> (acts @ acts', r)))"

text \<open>The coroutine starts with \<open>ws\<close> unbound.\<close>

definition listen_for_order_book_diffs ::
  "('j \<Rightarrow> NdaxOrderBookEntry list) \<Rightarrow> string list \<Rightarrow> 'j conn_env list
    \<Rightarrow> data_dict action list \<times> 'j error option" where
  "listen_for_order_book_diffs entries_of trading_pairs envs =
     diffs_loop entries_of trading_pairs False envs"

section \<open>Order book state\<close>

text \<open>
  Modelled from the spec: the order book that applies the messages (\<open>OrderBook\<close>, created
  by \<open>order_book_create_function\<close>) is not among the sources. Following the spec's
  OrderBookState and \<open>applyDiff\<close>: two maps from price to aggregate quantity and a current
  \<open>updateId\<close>; a Diff older than the state is rejected (no-op, logged); otherwise each entry
  with a positive quantity is upserted into its side and any other entry removes its price,
  and the state's \<open>updateId\<close> becomes the message's after the whole batch. The second
  component of the result says whether the message was rejected and logged.
\<close>

record OrderBookState =
  bids :: "rat \<rightharpoonup> rat"
  asks :: "rat \<rightharpoonup> rat"
  state_update_id :: int

definition apply_entry :: "NdaxOrderBookEntry \<Rightarrow> OrderBookState \<Rightarrow> OrderBookState" where
  "apply_entry e st =
     (case side e of
        Bid \<Rightarrow>
          (if quantity e > 0 then st\<lparr>bids := (bids st)(price e \<mapsto> quantity e)\<rparr>
           else st\<lparr>bids := (bids st)(price e := None)\<rparr>)
      | Ask \<Rightarrow>
          (if quantity e > 0 then st\<lparr>asks := (asks st)(price e \<mapsto> quantity e)\<rparr>
           else st\<lparr>asks := (asks st)(price e := None)\<rparr>))"

definition applyDiff ::
  "OrderBookState \<Rightarrow> data_dict OrderBookMessage \<Rightarrow> OrderBookState \<times> bool" where
  "applyDiff st msg =
     (if update_id msg < state_update_id st then (st, True)
      else ((fold apply_entry (data (content msg)) st)\<lparr>state_update_id := update_id msg\<rparr>,
            False))"

section \<open>Properties of the instrument directory\<close>

lemma init_trading_pair_ids_raise:
  "init_trading_pair_ids c (Inl e) = (Inl e, Map.empty)"
  by (simp add: init_trading_pair_ids_def)

lemma init_trading_pair_ids_not_200:
  "status r \<noteq> 200 \<Longrightarrow> init_trading_pair_ids c (Inr r) = (Inr (), Map.empty)"
  by (simp add: init_trading_pair_ids_def)

lemma init_trading_pair_ids_200:
  "status r = 200 \<Longrightarrow>
     init_trading_pair_ids c (Inr r) = (Inr (), update_results Map.empty (json r))"
  by (simp add: init_trading_pair_ids_def)

text \<open>
  C1 (as stated, refuted): with \<open>BTC-CAD\<close> cached from an earlier refresh, a refresh that
  receives status 500 leaves \<open>BTC-CAD\<close> unresolvable.
\<close>

theorem refresh_non_success_loses_cache:
  "[''BTC-CAD'' \<mapsto> (1::int)] ''BTC-CAD'' = Some 1
   \<and> snd (init_trading_pair_ids [''BTC-CAD'' \<mapsto> 1]
            (Inr \<lparr>status = 500, json = []\<rparr> :: unit error + instrument list response))
        ''BTC-CAD'' = None"
  by (simp add: init_trading_pair_ids_def)

text \<open>
  C1 (amended): a refresh clears the cached mapping before it issues its request, so a
  refresh whose request raises, or that receives a status other than 200, leaves the cache
  empty whatever it held before.
\<close>

theorem refresh_failure_leaves_cache_empty:
  "(\<exists>e. get = Inl e) \<or> (\<exists>r. get = Inr r \<and> status r \<noteq> 200)
   \<Longrightarrow> snd (init_trading_pair_ids cache get) = Map.empty"
  by (auto simp: init_trading_pair_ids_raise init_trading_pair_ids_not_200)

theorem refresh_failure_leaves_cache_empty_witness:
  "snd (init_trading_pair_ids [''BTC-CAD'' \<mapsto> 1]
          (Inl (ClientError ''connection refused'') :: unit error + instrument list response))
     = Map.empty"
  using refresh_failure_leaves_cache_empty
          [where get = "Inl (ClientError ''connection refused'')
                          :: unit error + instrument list response"
             and cache = "[''BTC-CAD'' \<mapsto> 1]"]
  by simp

text \<open>
  C3 (as stated, refuted): a refresh that receives status 500 completes successfully.
\<close>

theorem refresh_status_500_succeeds:
  "fst (init_trading_pair_ids Map.empty
          (Inr \<lparr>status = 500, json = []\<rparr> :: unit error + instrument list response))
     = Inr ()"
  by (simp add: init_trading_pair_ids_def)

text \<open>
  C3 (amended): a refresh whose request raises fails with that error; a refresh that
  receives a status other than 200 does not fail: it completes successfully and leaves
  the mapping empty.
\<close>

theorem refresh_fails_only_when_request_raises:
  "(get = Inl e \<longrightarrow> fst (init_trading_pair_ids cache get) = Inl e)
   \<and> (get = Inr r \<and> status r \<noteq> 200 \<longrightarrow>
        init_trading_pair_ids cache get = (Inr (), Map.empty))"
  by (auto simp: init_trading_pair_ids_raise init_trading_pair_ids_not_200)

theorem refresh_fails_only_when_request_raises_witness:
  "fst (init_trading_pair_ids Map.empty
          (Inl (ClientError ''timeout'') :: unit error + instrument list response))
     = Inl (ClientError ''timeout'')
   \<and> init_trading_pair_ids [''BTC-CAD'' \<mapsto> 1]
          (Inr \<lparr>status = 404, json = []\<rparr> :: unit error + instrument list response)
     = (Inr (), Map.empty)"
  using refresh_fails_only_when_request_raises
          [where get = "Inl (ClientError ''timeout'') :: unit error + instrument list response"
             and e = "ClientError ''timeout''" and cache = Map.empty]
        refresh_fails_only_when_request_raises
          [where get = "Inr \<lparr>status = 404, json = []\<rparr> :: unit error + instrument list response"
             and r = "\<lparr>status = 404, json = []\<rparr>" and cache = "[''BTC-CAD'' \<mapsto> 1]"]
  by simp

text \<open>
  C4: after a refresh that returns the single instrument BTC/CAD with id 1, looking up
  \<open>BTC-CAD\<close> gives 1 and looking up any other pair raises KeyError (the lookup miss);
  the lookup is a function of the cached mapping alone.
\<close>

theorem refresh_btc_cad_then_lookup:
  "m = snd (init_trading_pair_ids cache
        (Inr \<lparr>status = 200,
              json = [\<lparr>Product1Symbol = ''BTC'', Product2Symbol = ''CAD'', InstrumentId = 1\<rparr>]\<rparr>
          :: 'j error + instrument list response))
   \<Longrightarrow> trading_pair_id m ''BTC-CAD'' = (Inr 1 :: 'j error + int)
       \<and> (pair \<noteq> ''BTC-CAD'' \<longrightarrow> trading_pair_id m pair = (Inl (KeyError pair) :: 'j error + int))"
  by (simp add: init_trading_pair_ids_def trading_pair_id_def)

theorem refresh_btc_cad_then_lookup_witness:
  "trading_pair_id
     (snd (init_trading_pair_ids Map.empty
        (Inr \<lparr>status = 200,
              json = [\<lparr>Product1Symbol = ''BTC'', Product2Symbol = ''CAD'', InstrumentId = 1\<rparr>]\<rparr>
          :: unit error + instrument list response)))
     ''ETH-CAD'' = (Inl (KeyError ''ETH-CAD'') :: unit error + int)"
  using refresh_btc_cad_then_lookup
          [OF refl, where pair = "''ETH-CAD''" and cache = Map.empty and ?'j = unit]
  by simp

section \<open>Properties of the snapshot fetch\<close>

text \<open>
  What does hold of a status other than 200 on the order-book response, once the request is
  issued: the fetch never returns a success, and when the body decodes as JSON it raises the
  IOError that carries the status and the decoded body.
\<close>

lemma order_book_non_200_never_succeeds:
  assumes "\<forall>i. \<exists>response. get_book i = Inr response \<and> status response \<noteq> 200"
  shows "\<exists>e. fst (get_order_book_data entries_of cache get_instruments get_book trading_pair)
               = Inl e"
proof (cases "init_trading_pair_ids cache get_instruments")
  case (Pair r m)
  show ?thesis
  proof (cases r)
    case (Inl e)
    with Pair show ?thesis by (simp add: get_order_book_data_def)
  next
    case (Inr u)
    show ?thesis
    proof (cases "m trading_pair")
      case None
      with Pair Inr show ?thesis
        by (simp add: get_order_book_data_def trading_pair_id_def)
    next
      case (Some i)
      from assms obtain response
        where "get_book i = Inr response" and "status response \<noteq> 200" by blast
      with Pair Inr Some show ?thesis
        by (cases "json response") (simp_all add: get_order_book_data_def trading_pair_id_def)
    qed
  qed
qed

lemma order_book_non_200_json_body_raises_IOError:
  assumes "init_trading_pair_ids cache get_instruments = (Inr (), m)"
    and "m trading_pair = Some instrument_id"
    and "get_book instrument_id = Inr response"
    and "status response \<noteq> 200"
    and "json response = Inr body"
  shows "fst (get_order_book_data entries_of cache get_instruments get_book trading_pair)
           = Inl (IOError trading_pair ORDER_BOOK_URL (status response) body)"
  using assms by (simp add: get_order_book_data_def trading_pair_id_def)

lemma order_book_non_200_undecodable_body_raises_decode_error:
  assumes "init_trading_pair_ids cache get_instruments = (Inr (), m)"
    and "m trading_pair = Some instrument_id"
    and "get_book instrument_id = Inr response"
    and "status response \<noteq> 200"
    and "json response = Inl e"
  shows "fst (get_order_book_data entries_of cache get_instruments get_book trading_pair)
           = Inl e"
  using assms by (simp add: get_order_book_data_def trading_pair_id_def)

text \<open>
  A status other than 200 on the directory refresh inside the fetch is not reported
  either: the refresh leaves the mapping empty and the fetch raises the lookup's KeyError
  before the order-book request is made.
\<close>

lemma directory_non_200_fetch_raises_KeyError:
  "status r \<noteq> 200 \<Longrightarrow>
   fst (get_order_book_data entries_of cache (Inr r) get_book trading_pair)
     = Inl (KeyError trading_pair)"
  by (simp add: get_order_book_data_def init_trading_pair_ids_def trading_pair_id_def)

text \<open>
  C5 (the code at the failing input): the GetL2Snapshot response has status 503 and a body
  that is not JSON, so \<open>await response.json()\<close> raises while the message of the IOError is
  being formatted. The fetch fails with that decoding exception, which carries neither the
  response body nor the formatted status message; the IOError is never built.
\<close>

theorem order_book_503_with_non_json_body_raises_no_IOError:
  "get_order_book_data entries_of cache
     (Inr \<lparr>status = 200, json = [\<lparr>Product1Symbol = ''BTC'', Product2Symbol = ''CAD'', InstrumentId = 1\<rparr>]\<rparr>)
     (\<lambda>instrument_id. Inr \<lparr>status = 503, json = Inl (ClientError ''ContentTypeError'')\<rparr>)
     ''BTC-CAD''
   = (Inl (ClientError ''ContentTypeError''), [''BTC-CAD'' \<mapsto> 1])"
  by (simp add: get_order_book_data_def init_trading_pair_ids_def trading_pair_id_def)

section \<open>Properties of the diff listener's frame handling\<close>

lemma max_py_nonempty:
  assumes "xs \<noteq> []"
  shows "max_py xs = Inr (Max (set xs))"
proof (cases xs)
  case Nil
  with assms show ?thesis by simp
next
  case (Cons x rest)
  have "fold max rest x = Max (set (x # rest))"
    by (rule Max.set_eq_fold [symmetric])
  with Cons show ?thesis by simp
qed

lemma channel_neq_update: "WS_ORDER_BOOK_CHANNEL \<noteq> WS_ORDER_BOOK_L2_UPDATE_EVENT"
  by (simp add: WS_ORDER_BOOK_CHANNEL_def WS_ORDER_BOOK_L2_UPDATE_EVENT_def)

lemma handle_raw_msg_other:
  "msg_n msg \<noteq> WS_ORDER_BOOK_CHANNEL \<Longrightarrow> msg_n msg \<noteq> WS_ORDER_BOOK_L2_UPDATE_EVENT
   \<Longrightarrow> handle_raw_msg entries_of msg = Inr None"
  by (simp add: handle_raw_msg_def)

lemma handle_raw_msg_empty:
  "msg_n msg = WS_ORDER_BOOK_CHANNEL \<or> msg_n msg = WS_ORDER_BOOK_L2_UPDATE_EVENT
   \<Longrightarrow> entries_of (msg_o msg) = []
   \<Longrightarrow> handle_raw_msg entries_of msg = Inl ValueError"
  by (auto simp: handle_raw_msg_def)

lemma handle_raw_msg_channel:
  "msg_n msg = WS_ORDER_BOOK_CHANNEL \<Longrightarrow> entries_of (msg_o msg) \<noteq> []
   \<Longrightarrow> handle_raw_msg entries_of msg =
       Inr (Some (snapshot_message_from_exchange \<lparr>data = entries_of (msg_o msg)\<rparr>
                    (Max (set (map actionDateTime (entries_of (msg_o msg))))) None))"
  by (simp add: handle_raw_msg_def max_py_nonempty Let_def)

lemma handle_raw_msg_update:
  "msg_n msg = WS_ORDER_BOOK_L2_UPDATE_EVENT \<Longrightarrow> entries_of (msg_o msg) \<noteq> []
   \<Longrightarrow> handle_raw_msg entries_of msg =
       Inr (Some (diff_message_from_exchange \<lparr>data = entries_of (msg_o msg)\<rparr>
                    (Max (set (map actionDateTime (entries_of (msg_o msg))))) None))"
  by (simp add: handle_raw_msg_def max_py_nonempty Let_def channel_neq_update [symmetric])

lemma handle_raw_msg_cases:
  obtains (other) "msg_n msg \<noteq> WS_ORDER_BOOK_CHANNEL" "msg_n msg \<noteq> WS_ORDER_BOOK_L2_UPDATE_EVENT"
  | (empty) "msg_n msg = WS_ORDER_BOOK_CHANNEL \<or> msg_n msg = WS_ORDER_BOOK_L2_UPDATE_EVENT"
       "entries_of (msg_o msg) = []"
  | (channel) "msg_n msg = WS_ORDER_BOOK_CHANNEL" "entries_of (msg_o msg) \<noteq> []"
  | (update) "msg_n msg = WS_ORDER_BOOK_L2_UPDATE_EVENT" "entries_of (msg_o msg) \<noteq> []"
  by blast

text \<open>
  C2: every message the listener emits for a frame has as its \<open>updateId\<close> the maximum of
  the \<open>actionDateTime\<close> values over all entries of the decoded batch, whether it is the
  Snapshot or the Diff message; and a relevant frame with at least one entry does emit one.
\<close>

theorem emitted_update_id_is_max_actionDateTime:
  "(handle_raw_msg entries_of msg = Inr (Some m) \<longrightarrow>
      entries_of (msg_o msg) \<noteq> []
      \<and> update_id m = Max (set (map actionDateTime (entries_of (msg_o msg)))))
   \<and> ((msg_n msg = WS_ORDER_BOOK_CHANNEL \<or> msg_n msg = WS_ORDER_BOOK_L2_UPDATE_EVENT)
        \<and> entries_of (msg_o msg) \<noteq> [] \<longrightarrow>
        (\<exists>m'. handle_raw_msg entries_of msg = Inr (Some m')))"
proof (cases rule: handle_raw_msg_cases [where msg = msg and entries_of = entries_of])
  case other
  then show ?thesis by (simp add: handle_raw_msg_other)
next
  case empty
  then show ?thesis by (simp add: handle_raw_msg_empty)
next
  case channel
  then show ?thesis
    by (auto simp: handle_raw_msg_channel snapshot_message_from_exchange_def)
next
  case update
  then show ?thesis
    by (auto simp: handle_raw_msg_update diff_message_from_exchange_def)
qed

theorem emitted_update_id_is_max_actionDateTime_witness:
  "handle_raw_msg (\<lambda>j. j) \<lparr>msg_n = ''Level2UpdateEvent'', msg_o = [\<lparr>side = Bid, price = 100, quantity = 2, actionDateTime = 5\<rparr>, \<lparr>side = Ask, price = 101, quantity = 3, actionDateTime = 9\<rparr>]\<rparr>
     = Inr (Some (diff_message_from_exchange \<lparr>data = [\<lparr>side = Bid, price = 100, quantity = 2, actionDateTime = 5\<rparr>, \<lparr>side = Ask, price = 101, quantity = 3, actionDateTime = 9\<rparr>]\<rparr> 9 None))
   \<and> update_id (diff_message_from_exchange \<lparr>data = [\<lparr>side = Bid, price = 100, quantity = 2, actionDateTime = 5\<rparr>, \<lparr>side = Ask, price = 101, quantity = 3, actionDateTime = 9\<rparr>]\<rparr> 9 None)
       = Max (set (map actionDateTime [\<lparr>side = Bid, price = 100, quantity = 2, actionDateTime = 5\<rparr>, \<lparr>side = Ask, price = 101, quantity = 3, actionDateTime = 9\<rparr>]))"
  using emitted_update_id_is_max_actionDateTime
          [where entries_of = "\<lambda>j. j"
             and msg = "\<lparr>msg_n = ''Level2UpdateEvent'', msg_o = [\<lparr>side = Bid, price = 100, quantity = 2, actionDateTime = 5\<rparr>, \<lparr>side = Ask, price = 101, quantity = 3, actionDateTime = 9\<rparr>]\<rparr>"
             and m = "diff_message_from_exchange \<lparr>data = [\<lparr>side = Bid, price = 100, quantity = 2, actionDateTime = 5\<rparr>, \<lparr>side = Ask, price = 101, quantity = 3, actionDateTime = 9\<rparr>]\<rparr> 9 None"]
  by (simp add: handle_raw_msg_def WS_ORDER_BOOK_CHANNEL_def
        WS_ORDER_BOOK_L2_UPDATE_EVENT_def diff_message_from_exchange_def)

text \<open>
  C6 (as stated, refuted): a frame whose event name is the initial-state event
  \<open>SubscribeLevel2\<close> but whose batch is empty emits no Snapshot message.
\<close>

theorem initial_state_frame_without_entries_emits_nothing:
  "\<not> ((\<exists>m. handle_raw_msg (\<lambda>j. j) \<lparr>msg_n = ''SubscribeLevel2'', msg_o = []\<rparr> = Inr (Some m)
            \<and> msg_type m = SNAPSHOT)
        \<longleftrightarrow> msg_n \<lparr>msg_n = ''SubscribeLevel2'', msg_o = ([] :: NdaxOrderBookEntry list)\<rparr>
              = WS_ORDER_BOOK_CHANNEL)"
  by (simp add: handle_raw_msg_def WS_ORDER_BOOK_CHANNEL_def)

text \<open>
  C6 (amended): for every inbound frame whose batch holds at least one entry, the listener
  emits a Snapshot message exactly when the event name is \<open>SubscribeLevel2\<close> and a Diff
  message exactly when it is \<open>Level2UpdateEvent\<close>; every frame with another event name is
  discarded without error, whatever it carries.
\<close>

theorem frames_classified_by_event_name:
  "(entries_of (msg_o msg) \<noteq> [] \<longrightarrow>
      ((\<exists>m. handle_raw_msg entries_of msg = Inr (Some m) \<and> msg_type m = SNAPSHOT)
          \<longleftrightarrow> msg_n msg = WS_ORDER_BOOK_CHANNEL)
      \<and> ((\<exists>m. handle_raw_msg entries_of msg = Inr (Some m) \<and> msg_type m = DIFF)
          \<longleftrightarrow> msg_n msg = WS_ORDER_BOOK_L2_UPDATE_EVENT))
   \<and> (msg_n msg \<noteq> WS_ORDER_BOOK_CHANNEL \<and> msg_n msg \<noteq> WS_ORDER_BOOK_L2_UPDATE_EVENT \<longrightarrow>
        handle_raw_msg entries_of msg = Inr None)"
proof (cases rule: handle_raw_msg_cases [where msg = msg and entries_of = entries_of])
  case other
  then show ?thesis by (simp add: handle_raw_msg_other)
next
  case empty
  then show ?thesis by (auto simp: handle_raw_msg_empty)
next
  case channel
  then show ?thesis
    by (auto simp: handle_raw_msg_channel snapshot_message_from_exchange_def
          channel_neq_update channel_neq_update [symmetric])
next
  case update
  then show ?thesis
    by (auto simp: handle_raw_msg_update diff_message_from_exchange_def
          channel_neq_update channel_neq_update [symmetric])
qed

theorem frames_classified_by_event_name_witness:
  "(\<exists>m. handle_raw_msg (\<lambda>j. j) \<lparr>msg_n = ''SubscribeLevel2'', msg_o = [\<lparr>side = Bid, price = 100, quantity = 2, actionDateTime = 5\<rparr>]\<rparr> = Inr (Some m)
        \<and> msg_type m = SNAPSHOT)
   \<and> handle_raw_msg (\<lambda>j. j) \<lparr>msg_n = ''Ping'', msg_o = [\<lparr>side = Bid, price = 100, quantity = 2, actionDateTime = 5\<rparr>]\<rparr> = Inr None"
  using frames_classified_by_event_name
          [where entries_of = "\<lambda>j. j"
             and msg = "\<lparr>msg_n = ''SubscribeLevel2'', msg_o = [\<lparr>side = Bid, price = 100, quantity = 2, actionDateTime = 5\<rparr>]\<rparr>"]
        frames_classified_by_event_name
          [where entries_of = "\<lambda>j. j" and msg = "\<lparr>msg_n = ''Ping'', msg_o = [\<lparr>side = Bid, price = 100, quantity = 2, actionDateTime = 5\<rparr>]\<rparr>"]
  by (simp add: WS_ORDER_BOOK_CHANNEL_def WS_ORDER_BOOK_L2_UPDATE_EVENT_def)

text \<open>
  C10: a relevant frame whose batch decodes to no entry makes the frame's processing raise
  (ValueError, from the maximum of an empty list) instead of emitting a message; hence every
  message the listener emits holds at least one entry.
\<close>

theorem empty_batch_raises_and_emitted_messages_nonempty:
  "((msg_n msg = WS_ORDER_BOOK_CHANNEL \<or> msg_n msg = WS_ORDER_BOOK_L2_UPDATE_EVENT)
      \<and> entries_of (msg_o msg) = [] \<longrightarrow>
      handle_raw_msg entries_of msg = Inl ValueError)
   \<and> (handle_raw_msg entries_of msg = Inr (Some m) \<longrightarrow> data (content m) \<noteq> [])"
proof (cases rule: handle_raw_msg_cases [where msg = msg and entries_of = entries_of])
  case other
  then show ?thesis by (simp add: handle_raw_msg_other)
next
  case empty
  then show ?thesis by (simp add: handle_raw_msg_empty)
next
  case channel
  then show ?thesis
    by (auto simp: handle_raw_msg_channel snapshot_message_from_exchange_def)
next
  case update
  then show ?thesis
    by (auto simp: handle_raw_msg_update diff_message_from_exchange_def)
qed

theorem empty_batch_raises_and_emitted_messages_nonempty_witness:
  "handle_raw_msg (\<lambda>j. j) \<lparr>msg_n = ''Level2UpdateEvent'', msg_o = []\<rparr> = Inl ValueError
   \<and> handle_raw_msg (\<lambda>j. j) \<lparr>msg_n = ''SubscribeLevel2'', msg_o = [\<lparr>side = Bid, price = 100, quantity = 2, actionDateTime = 5\<rparr>]\<rparr>
       = Inr (Some (snapshot_message_from_exchange \<lparr>data = [\<lparr>side = Bid, price = 100, quantity = 2, actionDateTime = 5\<rparr>]\<rparr> 5 None))
   \<and> data (content (snapshot_message_from_exchange \<lparr>data = [\<lparr>side = Bid, price = 100, quantity = 2, actionDateTime = 5\<rparr>]\<rparr> 5 None)) \<noteq> []"
  using empty_batch_raises_and_emitted_messages_nonempty
          [where entries_of = "\<lambda>j. j"
             and msg = "\<lparr>msg_n = ''Level2UpdateEvent'', msg_o = []\<rparr>"]
        empty_batch_raises_and_emitted_messages_nonempty
          [where entries_of = "\<lambda>j. j"
             and msg = "\<lparr>msg_n = ''SubscribeLevel2'', msg_o = [\<lparr>side = Bid, price = 100, quantity = 2, actionDateTime = 5\<rparr>]\<rparr>"
             and m = "snapshot_message_from_exchange \<lparr>data = [\<lparr>side = Bid, price = 100, quantity = 2, actionDateTime = 5\<rparr>]\<rparr> 5 None"]
  by (simp add: handle_raw_msg_def WS_ORDER_BOOK_CHANNEL_def
        WS_ORDER_BOOK_L2_UPDATE_EVENT_def snapshot_message_from_exchange_def)

section \<open>Properties of the snapshot loop\<close>

lemma is_cancelled_iff: "is_cancelled e \<longleftrightarrow> e = CancelledError"
  by (cases e) simp_all

lemma fetched_append: "fetched (xs @ ys) = fetched xs @ fetched ys"
  by (induction xs rule: fetched.induct) simp_all

lemma fetched_pair_trace: "fetched (pair_trace p penv) = [p]"
  by (simp add: pair_trace_def split: sum.splits prod.splits)

lemma fetched_pairs_trace: "fetched (pairs_trace env i pairs) = pairs"
  by (induction pairs arbitrary: i) (simp_all add: fetched_append fetched_pair_trace)

lemma snapshot_pairs_trace:
  assumes "\<forall>k < length pairs. \<forall>e. attempt (env (i + k)) = Inl e \<longrightarrow>
             e \<noteq> CancelledError \<and> sleep5 (env (i + k)) = None"
  shows "snapshot_pairs env i pairs = (pairs_trace env i pairs, Inr ())"
  using assms
proof (induction pairs arbitrary: i)
  case Nil
  show ?case by simp
next
  case (Cons p ps)
  have rest: "\<forall>k < length ps. \<forall>e. attempt (env (Suc i + k)) = Inl e \<longrightarrow>
                e \<noteq> CancelledError \<and> sleep5 (env (Suc i + k)) = None"
  proof (intro allI impI)
    fix k e
    assume "k < length ps" and "attempt (env (Suc i + k)) = Inl e"
    with Cons.prems [rule_format, of "Suc k" e]
    show "e \<noteq> CancelledError \<and> sleep5 (env (Suc i + k)) = None" by simp
  qed
  have IH: "snapshot_pairs env (Suc i) ps = (pairs_trace env (Suc i) ps, Inr ())"
    by (rule Cons.IH [OF rest])
  show ?case
  proof (cases "attempt (env i)")
    case (Inl e)
    with Cons.prems [rule_format, of 0 e]
    have "\<not> is_cancelled e" and "sleep5 (env i) = None"
      by (simp_all add: is_cancelled_iff)
    with Inl IH show ?thesis by (simp add: pair_trace_def)
  next
    case (Inr ok)
    with IH show ?thesis by (simp add: pair_trace_def split: prod.splits)
  qed
qed

text \<open>
  C8: in one pass of the snapshot loop over the tracked pairs, as long as nothing is
  cancelled, a pair whose fetch or emission raises is answered by the network log and a
  5 second sleep, after which the pass goes on with the next pair: the pass consists of
  each pair's own trace in order, it ends normally, and every tracked pair is fetched.
\<close>

theorem snapshot_pass_survives_pair_failures:
  assumes "\<forall>k < length pairs. \<forall>e. attempt (env (i + k)) = Inl e \<longrightarrow>
             e \<noteq> CancelledError \<and> sleep5 (env (i + k)) = None"
  shows "snapshot_pairs env i pairs = (pairs_trace env i pairs, Inr ())
         \<and> fetched (fst (snapshot_pairs env i pairs)) = pairs"
  using snapshot_pairs_trace [OF assms] by (simp add: fetched_pairs_trace)

theorem snapshot_pass_survives_pair_failures_witness:
  "snapshot_pairs
     (\<lambda>k. if k = 0 then \<lparr>attempt = Inl (ClientError ''timeout''), sleep5 = None\<rparr>
           else \<lparr>attempt = Inr ((), [''ETH-CAD'' \<mapsto> 2], 1000), sleep5 = None\<rparr>)
     0 [''BTC-CAD'', ''ETH-CAD'']
   = ([GetNewOrderBook ''BTC-CAD'', LogNetwork, Sleep 5,
       GetNewOrderBook ''ETH-CAD'',
       Put (snapshot_message_from_exchange () 1000 (Some (''ETH-CAD'', Some 2)))],
      (Inr () :: unit error + unit))"
  using snapshot_pass_survives_pair_failures
          [where pairs = "[''BTC-CAD'', ''ETH-CAD'']" and i = 0
             and env = "\<lambda>k. if k = 0
                          then \<lparr>attempt = (Inl (ClientError ''timeout'')
                                           :: unit error + unit \<times> trading_pair_id_map \<times> int),
                                sleep5 = None\<rparr>
                          else \<lparr>attempt = Inr ((), [''ETH-CAD'' \<mapsto> 2], 1000), sleep5 = None\<rparr>"]
  by (simp add: pair_trace_def)

text \<open>
  The snapshot loop itself leaves only by cancellation, given that an awaited sleep raises
  nothing but a cancellation.
\<close>

lemma snapshot_pairs_exit:
  assumes "snapshot_pairs env i pairs = (acts, Inl e)"
    and "\<forall>k. sleep5 (env k) = None \<or> sleep5 (env k) = Some CancelledError"
  shows "e = CancelledError"
  using assms
proof (induction pairs arbitrary: i acts)
  case Nil
  then show ?case by simp
next
  case (Cons p ps)
  from Cons.prems(2) have "sleep5 (env i) = None \<or> sleep5 (env i) = Some CancelledError"
    by blast
  with Cons.prems(1) Cons.IH [OF _ Cons.prems(2)] show ?case
    by (auto simp: is_cancelled_iff split: sum.splits prod.splits if_splits option.splits)
qed

lemma snapshots_except_exit:
  "snapshots_except cenv acts e = (acts', Inl e') \<Longrightarrow>
   retry_sleep cenv = None \<or> retry_sleep cenv = Some CancelledError \<Longrightarrow> e' = CancelledError"
  by (auto simp: snapshots_except_def is_cancelled_iff split: if_splits option.splits)

lemma snapshots_cycle_exit:
  assumes "snapshots_cycle pairs cenv = (acts, Inl e)"
    and "\<forall>k. sleep5 (pair_envs cenv k) = None \<or> sleep5 (pair_envs cenv k) = Some CancelledError"
    and "retry_sleep cenv = None \<or> retry_sleep cenv = Some CancelledError"
  shows "e = CancelledError"
  using assms(1) snapshots_except_exit [OF _ assms(3)]
  by (auto simp: snapshots_cycle_def split: prod.splits sum.splits option.splits)

lemma snapshots_loop_exit:
  assumes "listen_for_order_book_snapshots pairs cenvs = (acts, Some e)"
    and "\<forall>cenv \<in> set cenvs.
           (\<forall>k. sleep5 (pair_envs cenv k) = None \<or> sleep5 (pair_envs cenv k) = Some CancelledError)
           \<and> (retry_sleep cenv = None \<or> retry_sleep cenv = Some CancelledError)"
  shows "e = CancelledError"
  using assms
proof (induction cenvs arbitrary: acts)
  case Nil
  then show ?case by simp
next
  case (Cons c cs)
  show ?case
  proof (cases "snapshots_cycle pairs c")
    case (Pair a r)
    show ?thesis
    proof (cases r)
      case (Inl e')
      with Pair Cons.prems(1) have "e' = e" by simp
      with Pair Inl Cons.prems(2) snapshots_cycle_exit [of pairs c a e] show ?thesis by simp
    next
      case (Inr u)
      with Pair Cons.prems(1) obtain a'
        where "listen_for_order_book_snapshots pairs cs = (a', Some e)"
        by (auto split: prod.splits)
      with Cons.IH Cons.prems(2) show ?thesis by simp
    qed
  qed
qed

section \<open>Properties of the diff loop\<close>

text \<open>
  C7 (the code at the failing input): when the very first connection attempt raises, the
  diff loop logs and sleeps 30 seconds, and then its \<open>finally\<close> clause closes a \<open>ws\<close> that
  was never bound: the loop ends with UnboundLocalError instead of going on, whatever the
  environment would have done next.
\<close>

theorem diff_loop_ends_when_first_connect_fails:
  "listen_for_order_book_diffs entries_of trading_pairs
     (\<lparr>connect = Some (ClientError ''connection refused''), send_request = sr,
       messages = ms, messages_end = me, sleep30 = None\<rparr> # rest)
   = ([Connect, LogNetwork, Sleep 30], Some (UnboundLocalError ''ws''))"
  by (simp add: listen_for_order_book_diffs_def diffs_iteration_def diffs_try_def)

lemma diffs_first_connect_fails:
  "connect env = Some e \<Longrightarrow>
   snd (listen_for_order_book_diffs entries_of trading_pairs (env # rest))
     = Some (UnboundLocalError ''ws'')"
  by (simp add: listen_for_order_book_diffs_def diffs_iteration_def diffs_try_def
        split: sum.splits option.splits prod.splits)

section \<open>Properties of the order book state\<close>

text \<open>
  C9: applying a Diff whose \<open>updateId\<close> is less than the state's current \<open>updateId\<close> is a
  no-op: both side maps and the \<open>updateId\<close> are unchanged, and the message is rejected.
\<close>

theorem stale_diff_is_noop:
  "update_id msg < state_update_id st \<Longrightarrow> applyDiff st msg = (st, True)"
  by (simp add: applyDiff_def)

theorem stale_diff_is_noop_witness:
  "applyDiff \<lparr>bids = [100 \<mapsto> 2], asks = [101 \<mapsto> 3], state_update_id = 10\<rparr>
     (diff_message_from_exchange
        \<lparr>data = [\<lparr>side = Bid, price = 100, quantity = 0, actionDateTime = 5\<rparr>]\<rparr> 5 None)
   = (\<lparr>bids = [100 \<mapsto> 2], asks = [101 \<mapsto> 3], state_update_id = 10\<rparr>, True)"
  using stale_diff_is_noop
          [where st = "\<lparr>bids = [100 \<mapsto> 2], asks = [101 \<mapsto> 3], state_update_id = 10\<rparr>"
             and msg = "diff_message_from_exchange
                \<lparr>data = [\<lparr>side = Bid, price = 100, quantity = 0, actionDateTime = 5\<rparr>]\<rparr> 5 None"]
  by (simp add: diff_message_from_exchange_def)

end
